theory Spec2Isabelle
  imports Complex_Main "HOL-Library.Sublist"
begin

section \<open>types.ts\<close>

text \<open>
  The four enums of \<^verbatim>\<open>types.ts\<close> are TypeScript string enums: at run time a member is
  its string, a \<^verbatim>\<open>switch\<close> compares strings, and a template literal interpolates the
  string. They are modelled as strings, each member a named constant, so that the
  \<^verbatim>\<open>default\<close> branches of the lookups stay reachable for a value outside the enum.
\<close>

named_theorems enum_defs \<open>the string values of the enum members\<close>

type_synonym Language = string

definition Language_EN :: Language where [enum_defs]: "Language_EN = ''en''"
definition Language_MY :: Language where [enum_defs]: "Language_MY = ''my''"
definition Language_TH :: Language where [enum_defs]: "Language_TH = ''th''"

definition Language_values :: "Language list" where
  "Language_values = [Language_EN, Language_MY, Language_TH]"

type_synonym Framework = string

definition Framework_AIDA :: Framework where [enum_defs]: "Framework_AIDA = ''AIDA''"
definition Framework_PAS :: Framework where [enum_defs]: "Framework_PAS = ''PAS''"
definition Framework_BAB :: Framework where [enum_defs]: "Framework_BAB = ''BAB''"
definition Framework_FAB :: Framework where [enum_defs]: "Framework_FAB = ''FAB''"
definition Framework_QUEST :: Framework where [enum_defs]: "Framework_QUEST = ''QUEST''"
definition Framework_FOUR_P :: Framework where [enum_defs]: "Framework_FOUR_P = ''FOUR_P''"
definition Framework_PASTOR :: Framework where [enum_defs]: "Framework_PASTOR = ''PASTOR''"
definition Framework_FREESTYLE :: Framework where
  [enum_defs]: "Framework_FREESTYLE = ''FREESTYLE''"

definition Framework_values :: "Framework list" where
  "Framework_values =
     [Framework_AIDA, Framework_PAS, Framework_BAB, Framework_FAB, Framework_QUEST,
      Framework_FOUR_P, Framework_PASTOR, Framework_FREESTYLE]"

type_synonym ContentPillar = string

definition ContentPillar_EDUCATIONAL :: ContentPillar where
  [enum_defs]: "ContentPillar_EDUCATIONAL = ''Educational''"
definition ContentPillar_PROMOTIONAL :: ContentPillar where
  [enum_defs]: "ContentPillar_PROMOTIONAL = ''Promotional''"
definition ContentPillar_INSPIRATIONAL :: ContentPillar where
  [enum_defs]: "ContentPillar_INSPIRATIONAL = ''Inspirational''"
definition ContentPillar_ENTERTAINMENT :: ContentPillar where
  [enum_defs]: "ContentPillar_ENTERTAINMENT = ''Entertainment''"
definition ContentPillar_BEHIND_SCENES :: ContentPillar where
  [enum_defs]: "ContentPillar_BEHIND_SCENES = ''BehindTheScenes''"
definition ContentPillar_COMMUNITY :: ContentPillar where
  [enum_defs]: "ContentPillar_COMMUNITY = ''Community''"

definition ContentPillar_values :: "ContentPillar list" where
  "ContentPillar_values =
     [ContentPillar_EDUCATIONAL, ContentPillar_PROMOTIONAL, ContentPillar_INSPIRATIONAL,
      ContentPillar_ENTERTAINMENT, ContentPillar_BEHIND_SCENES, ContentPillar_COMMUNITY]"

type_synonym Tone = string

definition Tone_PROFESSIONAL :: Tone where [enum_defs]: "Tone_PROFESSIONAL = ''Professional''"
definition Tone_FRIENDLY :: Tone where [enum_defs]: "Tone_FRIENDLY = ''Friendly''"
definition Tone_URGENT :: Tone where [enum_defs]: "Tone_URGENT = ''Urgent''"
definition Tone_WITTY :: Tone where [enum_defs]: "Tone_WITTY = ''Witty''"
definition Tone_EMOTIONAL :: Tone where [enum_defs]: "Tone_EMOTIONAL = ''Emotional''"
definition Tone_LUXURY :: Tone where [enum_defs]: "Tone_LUXURY = ''Luxury''"

definition Tone_values :: "Tone list" where
  "Tone_values =
     [Tone_PROFESSIONAL, Tone_FRIENDLY, Tone_URGENT, Tone_WITTY, Tone_EMOTIONAL,
      Tone_LUXURY]"

text \<open>
  The field \<^verbatim>\<open>id\<close> is written \<open>id'\<close>: \<open>id\<close> is the identity function of HOL. A
  variable of the source whose name is a field of a record here takes a prime as well.
\<close>

record BrandProfile =
  id' :: string
  name :: string
  industry :: string
  description :: string
  defaultTone :: Tone
  defaultAudience :: string

text \<open>
  The optional fields \<^verbatim>\<open>targetAudience?\<close> and \<^verbatim>\<open>brand?\<close> are options: \<open>None\<close> is
  \<^verbatim>\<open>undefined\<close>.
\<close>

record ContentRequest =
  topic :: string
  description :: string
  framework :: Framework
  pillar :: ContentPillar
  language :: Language
  tone :: Tone
  targetAudience :: "string option"
  brand :: "BrandProfile option"

section \<open>constants.ts\<close>

definition DEFAULT_BRANDS :: "BrandProfile list" where
  "DEFAULT_BRANDS =
     [\<lparr>id' = ''demo-1'',
       name = ''TechNova'',
       industry = ''Consumer Electronics'',
       description =
         ''Innovative gadgets for the modern lifestyle. High-tech meets minimal design.'',
       defaultTone = Tone_WITTY,
       defaultAudience = ''Tech enthusiasts, Early adopters, Ages 18-35''\<rparr>,
      \<lparr>id' = ''demo-2'',
       name = ''GreenLeaf Organics'',
       industry = ''Health & Wellness'',
       description = ''100% organic supplements and superfoods sourced sustainably.'',
       defaultTone = Tone_FRIENDLY,
       defaultAudience = ''Health-conscious individuals, Eco-friendly consumers''\<rparr>]"

section \<open>JavaScript values\<close>

text \<open>
  A value of type \<^verbatim>\<open>string | undefined\<close> (or \<^verbatim>\<open>string | null\<close>) is truthy when it is
  a string that is not empty; \<^verbatim>\<open>a || b\<close> is \<^verbatim>\<open>a\<close> when \<^verbatim>\<open>a\<close> is truthy and
  \<^verbatim>\<open>b\<close> otherwise; a template literal writes \<^verbatim>\<open>undefined\<close> as the text "undefined".
\<close>

definition truthy :: "string option \<Rightarrow> bool" where
  "truthy v = (case v of None \<Rightarrow> False | Some s \<Rightarrow> s \<noteq> [])"

definition js_or :: "string option \<Rightarrow> string option \<Rightarrow> string option" where
  "js_or a b = (if truthy a then a else b)"

definition interpolate :: "string option \<Rightarrow> string" where
  "interpolate v = (case v of None \<Rightarrow> ''undefined'' | Some s \<Rightarrow> s)"

text \<open>The lines of a multi-line template literal, joined by the newline between them.\<close>

fun joinLines :: "string list \<Rightarrow> string" where
  "joinLines [] = []"
| "joinLines [l] = l"
| "joinLines (l # m # ls) = l @ ''\<newline>'' @ joinLines (m # ls)"

section \<open>services/geminiService.ts\<close>

definition MODEL_NAME :: string where
  "MODEL_NAME = ''gemini-2.5-flash''"

definition getFrameworkInstruction :: "Framework \<Rightarrow> string" where
  "getFrameworkInstruction framework' =
    (if framework' = Framework_AIDA then
       ''Apply the AIDA framework:\<newline>1. Attention: Grab attention with a hook.\<newline>2. Interest: Build interest with facts/details.\<newline>3. Desire: Create desire by showing benefits.\<newline>4. Action: Clear Call to Action (CTA).''
     else if framework' = Framework_PAS then
       ''Apply the PAS framework:\<newline>1. Problem: Identify a pain point.\<newline>2. Agitation: Agitate the pain, make it visceral.\<newline>3. Solution: Present the product/service as the ultimate solution.''
     else if framework' = Framework_BAB then
       ''Apply the BAB framework:\<newline>1. Before: Describe the current negative situation.\<newline>2. After: Describe the ideal future situation.\<newline>3. Bridge: Show how the product gets them from Before to After.''
     else if framework' = Framework_FAB then
       ''Apply the FAB framework:\<newline>1. Features: What it does.\<newline>2. Advantages: Why it helps.\<newline>3. Benefits: The underlying emotional or tangible payoff.''
     else if framework' = Framework_QUEST then
       ''Apply the QUEST framework:\<newline>1. Qualify the audience.\<newline>2. Understand their problem.\<newline>3. Educate them on the solution.\<newline>4. Stimulate desire.\<newline>5. Transition to action.''
     else if framework' = Framework_FOUR_P then
       ''Apply the 4 Ps framework:\<newline>1. Promise: Make a bold claim or promise about what the product does.\<newline>2. Picture: Paint a vivid visual picture of the user enjoying the benefits.\<newline>3. Proof: Provide evidence (social proof, facts, logic) that the promise is true.\<newline>4. Push: A strong call to action.''
     else if framework' = Framework_PASTOR then
       ''Apply the PASTOR framework:\<newline>1. Problem: Describe the problem.\<newline>2. Amplify: Amplify the consequences of not solving it.\<newline>3. Story: Tell a story related to the solution.\<newline>4. Transformation: Describe the transformation.\<newline>5. Offer: Describe exactly what you are offering.\<newline>6. Response: Ask for a response (CTA).''
     else if framework' = Framework_FREESTYLE then
       ''Create engaging, high-quality content optimized for social media or blogs. Use short paragraphs, emojis where appropriate, and a compelling structure.''
     else '''')"

definition getLanguageInstruction :: "Language \<Rightarrow> string" where
  "getLanguageInstruction language' =
    (if language' = Language_MY then
       ''Write the response in Myanmar (Burmese) language. Ensure the font encoding is standard Unicode. Use natural, flowing Burmese appropriate for marketing. Do NOT just transliterate English idioms, adapt them culturally.''
     else if language' = Language_TH then
       ''Write the response in Thai language. Use polite and persuasive Thai appropriate for marketing contexts.''
     else if language' = Language_EN then
       ''Write the response in English.''
     else ''Write the response in English.'')"

definition getPillarInstruction :: "ContentPillar \<Rightarrow> string" where
  "getPillarInstruction pillar' =
    (if pillar' = ContentPillar_EDUCATIONAL then
       ''Focus on teaching the audience something valuable. Use a helpful, authoritative voice. Include tips or steps.''
     else if pillar' = ContentPillar_PROMOTIONAL then
       ''Focus on conversion and sales. Highlight offers, scarcity, and value proposition.''
     else if pillar' = ContentPillar_INSPIRATIONAL then
       ''Focus on storytelling and motivation. Connect on an emotional level.''
     else if pillar' = ContentPillar_ENTERTAINMENT then
       ''Focus on engagement. Be lighthearted, relatable, or humorous.''
     else if pillar' = ContentPillar_BEHIND_SCENES then
       ''Focus on authenticity. Show the process, the people, or the 'why' behind the product.''
     else if pillar' = ContentPillar_COMMUNITY then
       ''Focus on social proof and belonging. Highlight user experiences or testimonials.''
     else '''')"

definition systemInstruction :: string where
  "systemInstruction = joinLines
     [''You are a world-class copywriter and content strategist.'',
      ''Your goal is to write persuasive, high-converting marketing copy.'',
      ''You are fluent in English, Myanmar, and Thai.'',
      ''Always format the output using Markdown (headers, bullet points, bold text).'',
      ''Do not explain the framework, just use it to structure the content.'']"

text \<open>The brand context block: \<^verbatim>\<open>brand ? `...` : `...`\<close>; an object is truthy.\<close>

definition brandContext :: "BrandProfile option \<Rightarrow> string" where
  "brandContext b =
    (case b of
       Some brand' \<Rightarrow> joinLines
         ['''',
          ''    BRAND IDENTITY:'',
          ''    - Brand Name: '' @ name brand',
          ''    - Industry: '' @ industry brand',
          ''    - Brand Story/Context: '' @ BrandProfile.description brand',
          ''    - Standard Audience: '' @ defaultAudience brand',
          ''    '']
     | None \<Rightarrow> ''BRAND IDENTITY: Generic / Not specified'')"

text \<open>
  \<^verbatim>\<open>targetAudience || brand?.defaultAudience || "General Audience"\<close>, the expression
  interpolated on the Target Audience line.
\<close>

definition audience :: "ContentRequest \<Rightarrow> string option" where
  "audience request =
     js_or (js_or (targetAudience request) (map_option defaultAudience (brand request)))
       (Some ''General Audience'')"

text \<open>The template literal \<^verbatim>\<open>prompt\<close> of \<^verbatim>\<open>generateCopy\<close>, line by line.\<close>

definition promptLines :: "ContentRequest \<Rightarrow> string list" where
  "promptLines request =
     ['''',
      ''  '' @ brandContext (brand request),
      '''',
      ''  CONTENT REQUEST:'',
      ''  Product/Topic: '' @ topic request,
      ''  Additional Context/Details: '' @ ContentRequest.description request,
      ''  Target Audience: '' @ interpolate (audience request),
      ''  Tone of Voice: '' @ tone request,
      ''  Content Pillar/Theme: '' @ pillar request,
      ''  '',
      ''  TASK:'',
      ''  '' @ getFrameworkInstruction (framework request),
      ''  '',
      ''  CONTENT FOCUS (Pillar):'',
      ''  '' @ getPillarInstruction (pillar request),
      ''  '',
      ''  LANGUAGE REQUIREMENT:'',
      ''  '' @ getLanguageInstruction (language request),
      ''  '',
      ''  IMPORTANT RULES:'',
      ''  - Make it creative and engaging.'',
      ''  - If using Myanmar language, ensure it reads naturally to native speakers, not like a machine translation.'',
      ''  - Use appropriate emojis for the '' @ tone request @ '' tone and '' @ pillar request @ '' theme.'',
      ''  - Ensure the content aligns with the Brand Identity provided above.'',
      ''  '']"

definition prompt :: "ContentRequest \<Rightarrow> string" where
  "prompt request = joinLines (promptLines request)"

text \<open>
  The one call of the hosted endpoint. Its argument is the record below; the call either
  resolves to a response, whose \<^verbatim>\<open>text\<close> is a string or \<^verbatim>\<open>undefined\<close>, or throws
  (a transport or API error, here with its description). The endpoint is a parameter
  of \<open>generateCopy\<close>.
\<close>

record GenerateContentParameters =
  model :: string
  contents :: string
  config_systemInstruction :: string
  config_temperature :: real
  config_topK :: nat
  config_topP :: real

datatype ApiOutcome = Resolved "string option" | Thrown string

type_synonym Api = "GenerateContentParameters \<Rightarrow> ApiOutcome"

datatype JsError = Error string

definition parameters :: "ContentRequest \<Rightarrow> GenerateContentParameters" where
  "parameters request =
     \<lparr>model = MODEL_NAME,
      contents = prompt request,
      config_systemInstruction = systemInstruction,
      config_temperature = 0.75,
      config_topK = 40,
      config_topP = 0.95\<rparr>"

text \<open>
  \<open>generateCopy\<close> returns what it wrote with \<^verbatim>\<open>console.error\<close> (one entry per call,
  the arguments of the call) and its result: \<open>Inr\<close> the returned string, \<open>Inl\<close> the thrown
  error.
\<close>

definition generateCopy :: "Api \<Rightarrow> ContentRequest \<Rightarrow> string list list \<times> (JsError + string)" where
  "generateCopy api request =
    (case api (parameters request) of
       Resolved text' \<Rightarrow>
         ([], Inr (interpolate
            (js_or text' (Some ''Sorry, I couldn't generate the content at this time.''))))
     | Thrown error' \<Rightarrow>
         ([[''Gemini API Error:'', error']],
          Inl (Error ''Failed to generate content. Please check your connection or API key.'')))"

section \<open>App.tsx\<close>

text \<open>
  The state of the \<^verbatim>\<open>App\<close> component that the handlers read and write, and what they
  show: the alerts and the console entries, oldest first. \<open>brandsIdentity\<close> stands for
  the identity of the array held in \<^verbatim>\<open>brands\<close>: React compares the dependencies of an
  effect with \<^verbatim>\<open>Object.is\<close>, and both \<^verbatim>\<open>setBrands\<close> calls of the component store a
  fresh array (\<^verbatim>\<open>[...prev, newBrand]\<close>, \<^verbatim>\<open>prev.filter(...)\<close>).
\<close>

record AppState =
  loading :: bool
  generatedContent :: "string option"
  brands :: "BrandProfile list"
  brandsIdentity :: nat
  selectedBrandId :: "string option"
  formData :: ContentRequest
  alerts :: "string list"
  console :: "string list list"

definition initialState :: AppState where
  "initialState =
     \<lparr>loading = False,
      generatedContent = None,
      brands = DEFAULT_BRANDS,
      brandsIdentity = 0,
      selectedBrandId = None,
      formData =
        \<lparr>topic = '''',
         description = '''',
         framework = Framework_AIDA,
         pillar = ContentPillar_PROMOTIONAL,
         language = Language_EN,
         tone = Tone_PROFESSIONAL,
         targetAudience = Some '''',
         brand = None\<rparr>,
      alerts = [],
      console = []\<rparr>"

text \<open>The body of the effect "When brand changes, update formData defaults".\<close>

definition brandEffect :: "AppState \<Rightarrow> AppState" where
  "brandEffect s =
    (if truthy (selectedBrandId s) then
       (case find (\<lambda>b. Some (id' b) = selectedBrandId s) (brands s) of
          Some brand' \<Rightarrow>
            s\<lparr>formData := (formData s)
                \<lparr>tone := defaultTone brand',
                 targetAudience := Some (defaultAudience brand'),
                 brand := Some brand'\<rparr>\<rparr>
        | None \<Rightarrow> s)
     else s\<lparr>formData := (formData s)\<lparr>brand := None\<rparr>\<rparr>)"

text \<open>
  After a handler has run, React renders the new state and runs the effect when one of
  its dependencies \<^verbatim>\<open>[selectedBrandId, brands]\<close> differs from the previous render.
\<close>

definition runEffects :: "AppState \<Rightarrow> AppState \<Rightarrow> AppState" where
  "runEffects previous s =
    (if selectedBrandId s \<noteq> selectedBrandId previous
        \<or> brandsIdentity s \<noteq> brandsIdentity previous
     then brandEffect s else s)"

text \<open>\<^verbatim>\<open>onSelectBrand={setSelectedBrandId}\<close>\<close>

definition setSelectedBrandId :: "string option \<Rightarrow> AppState \<Rightarrow> AppState" where
  "setSelectedBrandId v s = s\<lparr>selectedBrandId := v\<rparr>"

text \<open>\<^verbatim>\<open>onChange={setFormData}\<close>: the form replaces the request as a whole.\<close>

definition setFormData :: "ContentRequest \<Rightarrow> AppState \<Rightarrow> AppState" where
  "setFormData v s = s\<lparr>formData := v\<rparr>"

definition handleAddBrand :: "BrandProfile \<Rightarrow> AppState \<Rightarrow> AppState" where
  "handleAddBrand newBrand s =
     s\<lparr>brands := brands s @ [newBrand],
       brandsIdentity := Suc (brandsIdentity s),
       selectedBrandId := Some (id' newBrand)\<rparr>"

definition handleDeleteBrand :: "string \<Rightarrow> AppState \<Rightarrow> AppState" where
  "handleDeleteBrand brandId s =
    (let s1 = s\<lparr>brands := filter (\<lambda>b. id' b \<noteq> brandId) (brands s),
                 brandsIdentity := Suc (brandsIdentity s)\<rparr>
     in if selectedBrandId s = Some brandId then s1\<lparr>selectedBrandId := None\<rparr> else s1)"

text \<open>
  \<open>handleGenerate\<close>, from the click to the end of its \<^verbatim>\<open>finally\<close> block. The request
  is the \<^verbatim>\<open>formData\<close> of the render the handler belongs to.
\<close>

definition handleGenerate :: "Api \<Rightarrow> AppState \<Rightarrow> AppState" where
  "handleGenerate api s =
    (let s1 = s\<lparr>loading := True, generatedContent := None\<rparr>;
         (logged, outcome) = generateCopy api (formData s);
         s2 = s1\<lparr>console := console s1 @ logged\<rparr>;
         s3 = (case outcome of
                 Inr result \<Rightarrow> s2\<lparr>generatedContent := Some result\<rparr>
               | Inl (Error message) \<Rightarrow>
                   s2\<lparr>console := console s2 @ [[''Error: '' @ message]],
                      alerts := alerts s2 @ [''Something went wrong. Please try again.'']\<rparr>)
     in s3\<lparr>loading := False\<rparr>)"

definition handleClear :: "AppState \<Rightarrow> AppState" where
  "handleClear s =
     s\<lparr>generatedContent := None,
       formData := (formData s)
         \<lparr>topic := '''',
          description := '''',
          targetAudience :=
            (if truthy (selectedBrandId s) then targetAudience (formData s) else Some '''')\<rparr>\<rparr>"

section \<open>Example states\<close>

text \<open>
  The state after the first render, the state after the demo brand \<^verbatim>\<open>demo-1\<close> has then
  been selected, and the state after the tone has then been changed in the form.
\<close>

definition mounted :: AppState where
  "mounted = brandEffect initialState"

definition demoSelected :: AppState where
  "demoSelected = runEffects mounted (setSelectedBrandId (Some ''demo-1'') mounted)"

definition toneEdited :: AppState where
  "toneEdited =
     runEffects demoSelected
       (setFormData ((formData demoSelected)\<lparr>tone := Tone_URGENT\<rparr>) demoSelected)"

text \<open>
  The example request of the specification, the same request in a language outside the
  enum, and three requests whose topic is the text of an instruction.
\<close>

definition earbuds :: ContentRequest where
  "earbuds =
     \<lparr>topic = ''Wireless Earbuds'',
      description = '''',
      framework = Framework_PAS,
      pillar = ContentPillar_PROMOTIONAL,
      language = Language_EN,
      tone = Tone_WITTY,
      targetAudience = Some '''',
      brand = None\<rparr>"

definition earbudsInFrench :: ContentRequest where
  "earbudsInFrench = earbuds\<lparr>language := ''fr''\<rparr>"

definition pastedFramework :: ContentRequest where
  "pastedFramework = earbuds\<lparr>topic := getFrameworkInstruction Framework_AIDA\<rparr>"

definition pastedPillar :: ContentRequest where
  "pastedPillar = earbuds\<lparr>topic := getPillarInstruction ContentPillar_EDUCATIONAL\<rparr>"

definition pastedLanguage :: ContentRequest where
  "pastedLanguage = earbuds\<lparr>topic := getLanguageInstruction Language_TH\<rparr>"

section \<open>The prompt as a filled template\<close>

text \<open>
  The prompt read as the fixed texts of the two template literals, each followed by the
  value interpolated after it (the last one by nothing). \<open>brandLiterals\<close> and
  \<open>noBrandLiterals\<close> are the fixed texts up to the topic, with and without a brand;
  \<open>requestLiterals\<close> are those after the topic. Lemma \<open>prompt_fill\<close> below shows that
  \<open>prompt\<close> is this filling.
\<close>

fun fill :: "(string \<times> string) list \<Rightarrow> string" where
  "fill [] = []"
| "fill ((l, h) # segs) = l @ h @ fill segs"

definition brandLiterals :: "string list" where
  "brandLiterals =
     [''\<newline>  \<newline>    BRAND IDENTITY:\<newline>    - Brand Name: '',
      ''\<newline>    - Industry: '',
      ''\<newline>    - Brand Story/Context: '',
      ''\<newline>    - Standard Audience: '',
      ''\<newline>    \<newline>\<newline>  CONTENT REQUEST:\<newline>  Product/Topic: '']"

definition noBrandLiterals :: "string list" where
  "noBrandLiterals =
     [''\<newline>  BRAND IDENTITY: Generic / Not specified\<newline>\<newline>  CONTENT REQUEST:\<newline>  Product/Topic: '']"

definition requestLiterals :: "string list" where
  "requestLiterals =
     [''\<newline>  Additional Context/Details: '',
      ''\<newline>  Target Audience: '',
      ''\<newline>  Tone of Voice: '',
      ''\<newline>  Content Pillar/Theme: '',
      ''\<newline>  \<newline>  TASK:\<newline>  '',
      ''\<newline>  \<newline>  CONTENT FOCUS (Pillar):\<newline>  '',
      ''\<newline>  \<newline>  LANGUAGE REQUIREMENT:\<newline>  '',
      ''\<newline>  \<newline>  IMPORTANT RULES:\<newline>  - Make it creative and engaging.\<newline>  - If using Myanmar language, ensure it reads naturally to native speakers, not like a machine translation.\<newline>  - Use appropriate emojis for the '',
      '' tone and '',
      '' theme.\<newline>  - Ensure the content aligns with the Brand Identity provided above.\<newline>  '']"

definition templateLiterals :: "string list" where
  "templateLiterals = noBrandLiterals @ brandLiterals @ requestLiterals"

definition brandValues :: "BrandProfile option \<Rightarrow> string list" where
  "brandValues b =
     (case b of
        None \<Rightarrow> []
      | Some brand' \<Rightarrow>
          [name brand', industry brand', BrandProfile.description brand',
           defaultAudience brand'])"

definition promptSegments :: "ContentRequest \<Rightarrow> (string \<times> string) list" where
  "promptSegments r =
     zip ((case brand r of None \<Rightarrow> noBrandLiterals | Some b \<Rightarrow> brandLiterals) @ requestLiterals)
       (brandValues (brand r) @
        [topic r, ContentRequest.description r, interpolate (audience r), tone r, pillar r,
         getFrameworkInstruction (framework r), getPillarInstruction (pillar r),
         getLanguageInstruction (language r), tone r, pillar r, ''''])"

text \<open>
  The free text of a request that the template copies into the prompt: what the user
  typed into the form and into the brand profile. \<open>shortValues\<close> are the other values
  it copies: the names of the tones and pillars, and the fallback audience.
\<close>

definition freeText :: "ContentRequest \<Rightarrow> string list" where
  "freeText r =
     [topic r, ContentRequest.description r]
     @ (case targetAudience r of None \<Rightarrow> [] | Some a \<Rightarrow> [a])
     @ brandValues (brand r)"

definition shortValues :: "string list" where
  "shortValues = ''General Audience'' # Tone_values @ ContentPillar_values"

text \<open>
  The instructions the three lookups can insert, and what is checked of them and of the
  fixed texts to exclude an occurrence that overlaps a fixed text. \<open>free_of Ks xs\<close>: none
  of the strings \<open>Ks\<close> starts at a position of \<open>xs\<close>. Every instruction starts with one
  of \<open>startKeys\<close>, which occurs nowhere else in an instruction, and the first two
  characters of a start key occur in no fixed text and in no short value; every fixed
  text starts with one of \<open>reachKeys\<close>, which occurs in no instruction.
\<close>

definition allFragments :: "string list" where
  "allFragments =
     map getFrameworkInstruction Framework_values
     @ map getPillarInstruction ContentPillar_values
     @ map getLanguageInstruction Language_values"

fun free_of :: "'a list list \<Rightarrow> 'a list \<Rightarrow> bool" where
  "free_of Ks [] = list_all (\<lambda>K. \<not> prefix K []) Ks"
| "free_of Ks (x # xs) = (list_all (\<lambda>K. \<not> prefix K (x # xs)) Ks \<and> free_of Ks xs)"

definition startKeys :: "string list" where
  "startKeys = [''Ap'', ''Create e'', ''Fo'', ''Wr'']"

definition reachKeys :: "string list" where
  "reachKeys = [''\<newline> '', '' tone'', '' theme'']"

definition fragment_ok :: "string \<Rightarrow> bool" where
  "fragment_ok F =
     (list_ex (\<lambda>J. prefix J F) startKeys \<and> free_of startKeys (tl F)
      \<and> free_of reachKeys F \<and> last F = CHR ''.'')"

definition literal_ok :: "string \<Rightarrow> bool" where
  "literal_ok L =
     (L \<noteq> [] \<and> list_ex (\<lambda>K. prefix K L) reachKeys
      \<and> free_of (map (take 2) startKeys) L \<and> last L \<notin> set (map hd startKeys))"

definition clean :: "string \<Rightarrow> (string \<times> string) list \<Rightarrow> bool" where
  "clean F segs = (\<forall>(L, h) \<in> set segs. literal_ok L \<and> \<not> sublist F h)"

lemmas example_defs =
  mounted_def demoSelected_def toneEdited_def initialState_def DEFAULT_BRANDS_def

section \<open>Occurrences of a string in a filled template\<close>

lemma prompt_fill: "prompt r = fill (promptSegments r)"
  by (cases "brand r")
    (simp_all only: prompt_def promptLines_def promptSegments_def brandContext_def
      brandValues_def brandLiterals_def noBrandLiterals_def requestLiterals_def
      joinLines.simps fill.simps zip.simps zip_Cons_Cons append_Cons append_Nil append_assoc option.case
      list.case)

lemma fill_append: "fill (xs @ ys) = fill xs @ fill ys"
  by (induction xs rule: fill.induct) simp_all

lemma free_of_sublist:
  assumes "free_of Ks xs" and "K \<in> set Ks"
  shows "\<not> sublist K xs"
  using assms
proof (induction xs)
  case Nil
  then show ?case by (auto simp: list_all_iff)
next
  case (Cons x xs)
  then show ?case by (auto simp: list_all_iff sublist_Cons_right)
qed

lemma sublist_trans: "sublist J F \<Longrightarrow> sublist F H \<Longrightarrow> sublist J H"
  by (rule sublist_order.order_trans)

lemma key_not_in_tail:
  assumes "prefix J F" and "\<not> sublist J (tl H)" and "\<not> prefix F H"
  shows "\<not> sublist F H"
proof
  assume occ: "sublist F H"
  show False
  proof (cases H)
    case Nil
    with occ assms(3) show False by simp
  next
    case (Cons y ys)
    with occ assms(3) have "sublist F ys" by (simp add: sublist_Cons_right)
    with assms(1) have "sublist J ys"
      using sublist_trans prefix_imp_sublist by blast
    with assms(2) Cons show False by simp
  qed
qed

lemma starts_inside:
  assumes key: "prefix [a, b] F" and free: "\<not> sublist [a, b] L" and last: "L \<noteq> []" "last L \<noteq> a"
    and T: "suffix T L" "T \<noteq> []"
  shows "\<not> prefix T F \<and> \<not> prefix F T"
proof (intro conjI notI)
  assume "prefix F T"
  with key have "prefix [a, b] T" by (rule prefix_order.trans)
  then have "sublist [a, b] L"
    using T(1) sublist_trans prefix_imp_sublist suffix_imp_sublist by blast
  with free show False ..
next
  assume TF: "prefix T F"
  from key obtain F' where F: "F = a # b # F'" by (auto simp: prefix_def)
  from T(2) TF F obtain T' where T': "T = a # T'" by (cases T) auto
  show False
  proof (cases T')
    case Nil
    with T' T(1) last show False by (auto simp: suffix_def)
  next
    case (Cons c T'')
    with T' TF F have "c = b" by simp
    with T' Cons have "prefix [a, b] T" by simp
    then have "sublist [a, b] L"
      using T(1) sublist_trans prefix_imp_sublist suffix_imp_sublist by blast
    with free show False ..
  qed
qed

lemma reaches_into:
  assumes key: "prefix K L" and free: "\<not> sublist K F" and last: "F \<noteq> []" "last F \<notin> set (butlast K)"
    and S: "suffix S F" "S \<noteq> []"
  shows "\<not> prefix S L \<and> \<not> prefix L S"
proof -
  have False if "prefix S L \<or> prefix L S"
  proof (cases "length K \<le> length S")
    case True
    have "prefix K S"
      using that key True by (metis prefix_length_prefix prefix_order.trans)
    then have "sublist K F"
      using S(1) sublist_trans prefix_imp_sublist suffix_imp_sublist by blast
    with free show False ..
  next
    case False
    then have len: "length S < length K" by simp
    have SL: "prefix S L"
    proof (rule ccontr)
      assume "\<not> prefix S L"
      with that have "prefix L S" by simp
      then have "length L \<le> length S" by (rule prefix_length_le)
      moreover from key have "length K \<le> length L" by (rule prefix_length_le)
      ultimately show False using len by simp
    qed
    with key len have "prefix S K"
      by (metis prefix_length_prefix less_imp_le)
    with len obtain c cs where K: "K = S @ c # cs"
      by (metis prefix_def append_Nil2 less_irrefl list.exhaust)
    then have "set S \<subseteq> set (butlast K)"
      by (simp add: butlast_append)
    moreover from S have "last S = last F" by (auto simp: suffix_def)
    moreover from S(2) have "last S \<in> set S" by simp
    ultimately show False using last(2) by auto
  qed
  then show ?thesis by blast
qed

lemma literal_step:
  assumes F: "F \<noteq> []"
    and start: "\<And>T. suffix T L \<Longrightarrow> T \<noteq> [] \<Longrightarrow> \<not> prefix T F \<and> \<not> prefix F T"
    and reach: "\<And>S. suffix S F \<Longrightarrow> S \<noteq> [] \<Longrightarrow> \<not> prefix S L \<and> \<not> prefix L S"
    and p: "\<not> sublist F p" and h: "\<not> sublist F h"
  shows "\<not> sublist F (p @ L @ h)"
proof
  assume "sublist F (p @ L @ h)"
  with p consider "sublist F (L @ h)"
    | F1 F2 where "F = F1 @ F2" "suffix F1 p" "prefix F2 (L @ h)"
    by (auto simp: sublist_append [of F p])
  then show False
  proof cases
    case 1
    with h consider "sublist F L" | F1 F2 where "F = F1 @ F2" "suffix F1 L" "prefix F2 h"
      by (auto simp: sublist_append [of F L])
    then show False
    proof cases
      case 1
      then obtain T where T: "suffix T L" "prefix F T" by (auto simp: sublist_altdef')
      with F have "T \<noteq> []" by auto
      with T start show False by blast
    next
      case 2
      show False
      proof (cases "F1 = []")
        case True
        with 2 h show False by auto
      next
        case False
        moreover from 2 have "prefix F1 F" by simp
        ultimately show False using 2(2) start by blast
      qed
    qed
  next
    case 2
    show False
    proof (cases "F2 = []")
      case True
      with 2 p show False by auto
    next
      case False
      moreover from 2(1) have "suffix F2 F" by (simp add: suffix_def)
      moreover from 2(3) have "prefix F2 L \<or> prefix L F2" by (auto simp: prefix_append)
      ultimately show False using reach by blast
    qed
  qed
qed

lemma startKeys_long: "J \<in> set startKeys \<Longrightarrow> \<exists>a b J'. J = a # b # J'"
  by (auto simp: startKeys_def)

lemma reachKeys_dot: "K \<in> set reachKeys \<Longrightarrow> CHR ''.'' \<notin> set (butlast K)"
  by (auto simp: reachKeys_def)

lemma literal_ok_step:
  assumes F: "fragment_ok F" and L: "literal_ok L"
    and p: "\<not> sublist F p" and h: "\<not> sublist F h"
  shows "\<not> sublist F (p @ L @ h)"
proof -
  from F obtain J where J: "J \<in> set startKeys" "prefix J F"
    by (auto simp: fragment_ok_def list_ex_iff)
  from J(1) obtain a b J' where J': "J = a # b # J'" using startKeys_long by blast
  with J(2) have ab: "prefix [a, b] F" by (auto simp: prefix_def)
  then have F0: "F \<noteq> []" by auto
  from J' have "take 2 J = [a, b]" "hd J = a" by simp_all
  with J(1) have keys: "[a, b] \<in> set (map (take 2) startKeys)" "a \<in> set (map hd startKeys)"
    by (metis image_eqI set_map)+
  from L have L': "L \<noteq> []" "free_of (map (take 2) startKeys) L"
    "last L \<notin> set (map hd startKeys)"
    by (simp_all add: literal_ok_def)
  from L'(2) keys(1) have freeL: "\<not> sublist [a, b] L" by (rule free_of_sublist)
  from L'(1) L'(3) keys(2) have lastL: "L \<noteq> []" "last L \<noteq> a" by auto
  from L obtain K where K: "K \<in> set reachKeys" "prefix K L"
    by (auto simp: literal_ok_def list_ex_iff)
  from F have F': "free_of reachKeys F" "last F = CHR ''.''"
    by (simp_all add: fragment_ok_def)
  from F'(1) K(1) have freeF: "\<not> sublist K F" by (rule free_of_sublist)
  from F'(2) K(1) have lastF: "last F \<notin> set (butlast K)" using reachKeys_dot by simp
  show ?thesis
    using F0 starts_inside [OF ab freeL lastL] reaches_into [OF K(2) freeF F0 lastF] p h
    by (rule literal_step)
qed

lemma no_occurrence:
  assumes "fragment_ok F" and "clean F segs"
  shows "\<not> sublist F (fill segs)"
  using assms(2)
proof (induction segs rule: rev_induct)
  case Nil
  from assms(1) have "F \<noteq> []" by (auto simp: fragment_ok_def list_ex_iff startKeys_def)
  then show ?case by simp
next
  case (snoc seg segs)
  obtain L h where seg: "seg = (L, h)" by (cases seg)
  from snoc.prems seg have "literal_ok L" "\<not> sublist F h" "clean F segs"
    by (auto simp: clean_def)
  with snoc.IH assms(1) have "\<not> sublist F (fill segs @ L @ h)"
    by (simp add: literal_ok_step)
  with seg show ?case by (simp add: fill_append)
qed

subsection \<open>The instructions and the fixed texts of the prompt\<close>

lemma fragments_ok: "list_all fragment_ok allFragments"
  by code_simp

lemma literals_ok: "list_all literal_ok templateLiterals"
  by code_simp

lemma fragments_no_prefix:
  "list_all (\<lambda>F. list_all (\<lambda>H. F = H \<or> \<not> prefix F H) allFragments) allFragments"
  by code_simp

lemma fragments_distinct: "distinct allFragments"
  by code_simp

lemma short_values_ok: "list_all (free_of (map (take 2) startKeys)) shortValues"
  by code_simp

lemma fragment_in_fragment:
  assumes "F \<in> set allFragments" and "H \<in> set allFragments" and "F \<noteq> H"
  shows "\<not> sublist F H"
proof -
  from fragments_ok assms(1) have okF: "fragment_ok F" unfolding list_all_iff by blast
  from fragments_ok assms(2) have okH: "fragment_ok H" unfolding list_all_iff by blast
  from okF obtain J where J: "J \<in> set startKeys" "prefix J F"
    unfolding fragment_ok_def list_ex_iff by blast
  from okH have "free_of startKeys (tl H)" unfolding fragment_ok_def by blast
  then have tail: "\<not> sublist J (tl H)" using J(1) by (rule free_of_sublist)
  from fragments_no_prefix assms have "\<not> prefix F H"
    unfolding list_all_iff by blast
  with J(2) tail show ?thesis by (rule key_not_in_tail)
qed

lemma fill_contains: "(L, h) \<in> set segs \<Longrightarrow> sublist h (fill segs)"
proof (induction segs rule: fill.induct)
  case 1
  then show ?case by simp
next
  case (2 l v segs)
  show ?case
  proof (cases "(L, h) = (l, v)")
    case True
    then show ?thesis by (auto simp: sublist_append)
  next
    case False
    with 2 have "sublist h (fill segs)" by auto
    then show ?thesis by (simp add: sublist_append)
  qed
qed

lemma segment_values:
  "snd ` set (promptSegments r) =
     set (brandValues (brand r)) \<union>
     {topic r, ContentRequest.description r, interpolate (audience r), tone r, pillar r,
      getFrameworkInstruction (framework r), getPillarInstruction (pillar r),
      getLanguageInstruction (language r), ''''}"
  by (cases "brand r")
    (auto simp: promptSegments_def brandValues_def brandLiterals_def noBrandLiterals_def
      requestLiterals_def image_iff)

lemma value_in_prompt:
  assumes "h \<in> snd ` set (promptSegments r)"
  shows "sublist h (prompt r)"
proof -
  from assms obtain L where "(L, h) \<in> set (promptSegments r)" by force
  then show ?thesis unfolding prompt_fill by (rule fill_contains)
qed

lemma segment_literals: "(L, h) \<in> set (promptSegments r) \<Longrightarrow> L \<in> set templateLiterals"
  unfolding promptSegments_def templateLiterals_def
  by (cases "brand r") (auto dest!: set_zip_leftD)

lemma audience_cases:
  "interpolate (audience r) \<in> set (freeText r) \<union> {''General Audience''}"
  by (auto simp: audience_def js_or_def truthy_def interpolate_def freeText_def
      brandValues_def split: option.splits)

lemma framework_range:
  "getFrameworkInstruction f \<in> set (map getFrameworkInstruction Framework_values) \<union> {''''}"
proof (cases "f \<in> set Framework_values")
  case True
  then show ?thesis by simp
next
  case False
  then show ?thesis by (simp add: Framework_values_def getFrameworkInstruction_def)
qed

lemma pillar_range:
  "getPillarInstruction p \<in> set (map getPillarInstruction ContentPillar_values) \<union> {''''}"
proof (cases "p \<in> set ContentPillar_values")
  case True
  then show ?thesis by simp
next
  case False
  then show ?thesis by (simp add: ContentPillar_values_def getPillarInstruction_def)
qed

lemma language_fallback:
  "l \<notin> set Language_values \<Longrightarrow> getLanguageInstruction l = getLanguageInstruction Language_EN"
  by (simp add: Language_values_def getLanguageInstruction_def Language_EN_def Language_MY_def
      Language_TH_def)

lemma language_range:
  "getLanguageInstruction l \<in> set (map getLanguageInstruction Language_values)"
proof (cases "l \<in> set Language_values")
  case True
  then show ?thesis by simp
next
  case False
  then have "getLanguageInstruction l = getLanguageInstruction Language_EN"
    by (rule language_fallback)
  then show ?thesis by (simp add: Language_values_def)
qed

lemma fragment_nonempty: "F \<in> set allFragments \<Longrightarrow> F \<noteq> []"
  using fragments_ok unfolding list_all_iff fragment_ok_def list_ex_iff startKeys_def
  by fastforce

lemma fragment_not_in_short:
  assumes "F \<in> set allFragments" and "v \<in> set shortValues"
  shows "\<not> sublist F v"
proof
  assume occ: "sublist F v"
  from fragments_ok assms(1) have "fragment_ok F" unfolding list_all_iff by blast
  then obtain J where J: "J \<in> set startKeys" "prefix J F"
    unfolding fragment_ok_def list_ex_iff by blast
  have "prefix (take 2 J) J" by (rule take_is_prefix)
  then have "prefix (take 2 J) F" using J(2) by (rule prefix_order.trans)
  with occ have "sublist (take 2 J) v"
    using sublist_trans prefix_imp_sublist by blast
  moreover from J(1) have "take 2 J \<in> set (map (take 2) startKeys)" by simp
  moreover from short_values_ok assms(2) have "free_of (map (take 2) startKeys) v"
    unfolding list_all_iff by blast
  ultimately show False using free_of_sublist by blast
qed

lemma fragment_not_in_prompt:
  assumes F: "F \<in> set allFragments"
    and other: "F \<noteq> getFrameworkInstruction (framework r)"
      "F \<noteq> getPillarInstruction (pillar r)" "F \<noteq> getLanguageInstruction (language r)"
    and typed: "tone r \<in> set Tone_values" "pillar r \<in> set ContentPillar_values"
    and fields: "\<forall>t \<in> set (freeText r). \<not> sublist F t"
  shows "\<not> sublist F (prompt r)"
proof -
  from fragments_ok F have ok: "fragment_ok F" unfolding list_all_iff by blast
  have inserted: "\<not> sublist F H" if "H \<in> set allFragments \<union> {''''}" "F \<noteq> H" for H
    using that F fragment_in_fragment fragment_nonempty by auto
  have short: "\<not> sublist F v" if "v \<in> set shortValues" for v
    using F that by (rule fragment_not_in_short)
  have "clean F (promptSegments r)"
    unfolding clean_def
  proof (intro ballI, clarify)
    fix L h assume seg: "(L, h) \<in> set (promptSegments r)"
    from seg have "L \<in> set templateLiterals" by (rule segment_literals)
    with literals_ok have lit: "literal_ok L" unfolding list_all_iff by blast
    from seg have "h \<in> snd ` set (promptSegments r)" by force
    then consider "h \<in> set (freeText r)" | "h = interpolate (audience r)"
      | "h = tone r" | "h = pillar r"
      | "h = getFrameworkInstruction (framework r)" | "h = getPillarInstruction (pillar r)"
      | "h = getLanguageInstruction (language r)" | "h = ''''"
      unfolding segment_values by (auto simp: freeText_def)
    then have "\<not> sublist F h"
    proof cases
      case 1
      with fields show ?thesis by blast
    next
      case 2
      have "\<not> sublist F ''General Audience''"
        by (rule short) (simp add: shortValues_def)
      with 2 audience_cases [of r] fields show ?thesis by auto
    next
      case 3
      with typed(1) show ?thesis by (intro short) (simp add: shortValues_def)
    next
      case 4
      with typed(2) show ?thesis by (intro short) (simp add: shortValues_def)
    next
      case 5
      with framework_range [of "framework r"] other(1) show ?thesis
        by (intro inserted) (auto simp: allFragments_def)
    next
      case 6
      with pillar_range [of "pillar r"] other(2) show ?thesis
        by (intro inserted) (auto simp: allFragments_def)
    next
      case 7
      with language_range [of "language r"] other(3) show ?thesis
        by (intro inserted) (auto simp: allFragments_def)
    next
      case 8
      with fragment_nonempty [OF F] show ?thesis by simp
    qed
    with lit show "literal_ok L \<and> \<not> sublist F h" ..
  qed
  with ok show ?thesis unfolding prompt_fill by (rule no_occurrence)
qed

lemma fragment_sets:
  "set (map getFrameworkInstruction Framework_values) \<subseteq> set allFragments"
  "set (map getPillarInstruction ContentPillar_values) \<subseteq> set allFragments"
  "set (map getLanguageInstruction Language_values) \<subseteq> set allFragments"
  by (auto simp: allFragments_def)

lemma fragments_disjoint:
  "set (map getFrameworkInstruction Framework_values)
     \<inter> set (map getPillarInstruction ContentPillar_values) = {}"
  "set (map getFrameworkInstruction Framework_values)
     \<inter> set (map getLanguageInstruction Language_values) = {}"
  "set (map getPillarInstruction ContentPillar_values)
     \<inter> set (map getLanguageInstruction Language_values) = {}"
  using fragments_distinct unfolding allFragments_def distinct_append by auto

lemma framework_inj: "inj_on getFrameworkInstruction (set Framework_values)"
  using fragments_distinct unfolding allFragments_def distinct_append distinct_map by blast

lemma pillar_inj: "inj_on getPillarInstruction (set ContentPillar_values)"
  using fragments_distinct unfolding allFragments_def distinct_append distinct_map by blast

lemma topic_in_prompt: "sublist (topic r) (prompt r)"
  by (rule value_in_prompt) (simp add: segment_values)

section \<open>The instructions in the prompt (C1, C2, C3)\<close>

text \<open>
  C1, as the claim states it, fails: the topic is copied into the prompt as it is, so a
  request for the PAS framework whose topic is the text of the AIDA instruction gives a
  prompt that contains the AIDA instruction.
\<close>

theorem framework_fragment_counterexample:
  "Framework_AIDA \<in> set Framework_values
   \<and> Framework_AIDA \<noteq> framework pastedFramework
   \<and> sublist (getFrameworkInstruction Framework_AIDA) (prompt pastedFramework)"
proof -
  have "topic pastedFramework = getFrameworkInstruction Framework_AIDA"
    by (simp add: pastedFramework_def)
  with topic_in_prompt [of pastedFramework]
  have "sublist (getFrameworkInstruction Framework_AIDA) (prompt pastedFramework)" by simp
  then show ?thesis
    by (simp add: Framework_values_def pastedFramework_def earbuds_def enum_defs)
qed

text \<open>
  C1, amended. For every framework value of the request, the line of the template after
  "TASK:" is the instruction \<open>getFrameworkInstruction\<close> returns for it, which the
  prompt therefore contains; and, tone and pillar being values of their enums, the prompt
  contains the instruction of no other supported framework, unless a free-text field of
  the request (topic, description, target audience, or the name, industry, description
  or default audience of the brand) contains that instruction itself.
\<close>

theorem framework_fragment_exclusive:
  "promptLines r ! 11 = ''  '' @ getFrameworkInstruction (framework r)
   \<and> sublist (getFrameworkInstruction (framework r)) (prompt r)
   \<and> (\<forall>g \<in> set Framework_values.
        g \<noteq> framework r \<and> tone r \<in> set Tone_values \<and> pillar r \<in> set ContentPillar_values
        \<and> (\<forall>t \<in> set (freeText r). \<not> sublist (getFrameworkInstruction g) t)
        \<longrightarrow> \<not> sublist (getFrameworkInstruction g) (prompt r))"
proof (intro conjI ballI impI)
  show "promptLines r ! 11 = ''  '' @ getFrameworkInstruction (framework r)"
    by (simp add: promptLines_def)
  show "sublist (getFrameworkInstruction (framework r)) (prompt r)"
    by (rule value_in_prompt) (simp add: segment_values)
next
  fix g
  assume g: "g \<in> set Framework_values"
    and hyp: "g \<noteq> framework r \<and> tone r \<in> set Tone_values
      \<and> pillar r \<in> set ContentPillar_values
      \<and> (\<forall>t \<in> set (freeText r). \<not> sublist (getFrameworkInstruction g) t)"
  let ?F = "getFrameworkInstruction g"
  from g have own: "?F \<in> set (map getFrameworkInstruction Framework_values)" by simp
  with fragment_sets(1) have F: "?F \<in> set allFragments" by blast
  then have ne: "?F \<noteq> ''''" by (rule fragment_nonempty)
  have "?F \<noteq> getFrameworkInstruction (framework r)"
  proof (cases "framework r \<in> set Framework_values")
    case True
    with g hyp framework_inj show ?thesis by (auto dest: inj_onD)
  next
    case False
    then have "getFrameworkInstruction (framework r) = ''''"
      by (simp add: Framework_values_def getFrameworkInstruction_def)
    with ne show ?thesis by simp
  qed
  moreover have "?F \<noteq> getPillarInstruction (pillar r)"
  proof
    assume "?F = getPillarInstruction (pillar r)"
    with ne pillar_range [of "pillar r"]
    have "?F \<in> set (map getPillarInstruction ContentPillar_values)" by auto
    with own fragments_disjoint(1) show False by blast
  qed
  moreover have "?F \<noteq> getLanguageInstruction (language r)"
  proof
    assume "?F = getLanguageInstruction (language r)"
    with language_range [of "language r"]
    have "?F \<in> set (map getLanguageInstruction Language_values)" by auto
    with own fragments_disjoint(2) show False by blast
  qed
  ultimately show "\<not> sublist ?F (prompt r)"
    using F hyp by (intro fragment_not_in_prompt) auto
qed

theorem framework_fragment_exclusive_witness:
  "sublist (getFrameworkInstruction Framework_PAS) (prompt earbuds)
   \<and> \<not> sublist (getFrameworkInstruction Framework_AIDA) (prompt earbuds)"
proof -
  note exclusive = framework_fragment_exclusive [of earbuds]
  have supported: "Framework_AIDA \<in> set Framework_values"
    by (simp add: Framework_values_def)
  have other: "Framework_AIDA \<noteq> framework earbuds"
    by (simp add: earbuds_def enum_defs)
  have fields:
    "\<forall>t \<in> set (freeText earbuds). \<not> sublist (getFrameworkInstruction Framework_AIDA) t"
    by code_simp
  have typed: "tone earbuds \<in> set Tone_values" "pillar earbuds \<in> set ContentPillar_values"
    by (simp_all add: earbuds_def Tone_values_def ContentPillar_values_def)
  have requested: "framework earbuds = Framework_PAS"
    by (simp add: earbuds_def)
  from exclusive have "sublist (getFrameworkInstruction (framework earbuds)) (prompt earbuds)"
    by (rule conjunct2 [THEN conjunct1])
  then have "sublist (getFrameworkInstruction Framework_PAS) (prompt earbuds)"
    using requested by simp
  moreover have "\<not> sublist (getFrameworkInstruction Framework_AIDA) (prompt earbuds)"
    by (rule exclusive [THEN conjunct2, THEN conjunct2, rule_format,
          OF supported conjI [OF other conjI [OF typed(1) conjI [OF typed(2) fields]]]])
  ultimately show ?thesis ..
qed

text \<open>
  C2, as the claim states it, fails in the same way: a Promotional request whose topic
  is the text of the Educational instruction gives a prompt that contains the
  Educational instruction.
\<close>

theorem pillar_fragment_counterexample:
  "ContentPillar_EDUCATIONAL \<in> set ContentPillar_values
   \<and> ContentPillar_EDUCATIONAL \<noteq> pillar pastedPillar
   \<and> sublist (getPillarInstruction ContentPillar_EDUCATIONAL) (prompt pastedPillar)"
proof -
  have "topic pastedPillar = getPillarInstruction ContentPillar_EDUCATIONAL"
    by (simp add: pastedPillar_def)
  with topic_in_prompt [of pastedPillar]
  have "sublist (getPillarInstruction ContentPillar_EDUCATIONAL) (prompt pastedPillar)"
    by simp
  then show ?thesis
    by (simp add: ContentPillar_values_def pastedPillar_def earbuds_def enum_defs)
qed

text \<open>
  C2, amended. For every pillar value of the request, the line of the template after
  "CONTENT FOCUS (Pillar):" is the instruction \<open>getPillarInstruction\<close> returns for it,
  which the prompt therefore contains; and, tone and pillar being values of their enums,
  the prompt contains the instruction of no other supported pillar, unless a free-text
  field of the request contains that instruction itself.
\<close>

theorem pillar_fragment_exclusive:
  "promptLines r ! 14 = ''  '' @ getPillarInstruction (pillar r)
   \<and> sublist (getPillarInstruction (pillar r)) (prompt r)
   \<and> (\<forall>q \<in> set ContentPillar_values.
        q \<noteq> pillar r \<and> tone r \<in> set Tone_values \<and> pillar r \<in> set ContentPillar_values
        \<and> (\<forall>t \<in> set (freeText r). \<not> sublist (getPillarInstruction q) t)
        \<longrightarrow> \<not> sublist (getPillarInstruction q) (prompt r))"
proof (intro conjI ballI impI)
  show "promptLines r ! 14 = ''  '' @ getPillarInstruction (pillar r)"
    by (simp add: promptLines_def)
  show "sublist (getPillarInstruction (pillar r)) (prompt r)"
    by (rule value_in_prompt) (simp add: segment_values)
next
  fix q
  assume q: "q \<in> set ContentPillar_values"
    and hyp: "q \<noteq> pillar r \<and> tone r \<in> set Tone_values
      \<and> pillar r \<in> set ContentPillar_values
      \<and> (\<forall>t \<in> set (freeText r). \<not> sublist (getPillarInstruction q) t)"
  let ?F = "getPillarInstruction q"
  from q have own: "?F \<in> set (map getPillarInstruction ContentPillar_values)" by simp
  with fragment_sets(2) have F: "?F \<in> set allFragments" by blast
  then have ne: "?F \<noteq> ''''" by (rule fragment_nonempty)
  have "?F \<noteq> getPillarInstruction (pillar r)"
  proof (cases "pillar r \<in> set ContentPillar_values")
    case True
    with q hyp pillar_inj show ?thesis by (auto dest: inj_onD)
  next
    case False
    then have "getPillarInstruction (pillar r) = ''''"
      by (simp add: ContentPillar_values_def getPillarInstruction_def)
    with ne show ?thesis by simp
  qed
  moreover have "?F \<noteq> getFrameworkInstruction (framework r)"
  proof
    assume "?F = getFrameworkInstruction (framework r)"
    with ne framework_range [of "framework r"]
    have "?F \<in> set (map getFrameworkInstruction Framework_values)" by auto
    with own fragments_disjoint(1) show False by blast
  qed
  moreover have "?F \<noteq> getLanguageInstruction (language r)"
  proof
    assume "?F = getLanguageInstruction (language r)"
    with language_range [of "language r"]
    have "?F \<in> set (map getLanguageInstruction Language_values)" by auto
    with own fragments_disjoint(3) show False by blast
  qed
  ultimately show "\<not> sublist ?F (prompt r)"
    using F hyp by (intro fragment_not_in_prompt) auto
qed

theorem pillar_fragment_exclusive_witness:
  "sublist (getPillarInstruction ContentPillar_PROMOTIONAL) (prompt earbuds)
   \<and> \<not> sublist (getPillarInstruction ContentPillar_EDUCATIONAL) (prompt earbuds)"
proof -
  note exclusive = pillar_fragment_exclusive [of earbuds]
  have supported: "ContentPillar_EDUCATIONAL \<in> set ContentPillar_values"
    by (simp add: ContentPillar_values_def)
  have other: "ContentPillar_EDUCATIONAL \<noteq> pillar earbuds"
    by (simp add: earbuds_def enum_defs)
  have fields:
    "\<forall>t \<in> set (freeText earbuds).
       \<not> sublist (getPillarInstruction ContentPillar_EDUCATIONAL) t"
    by code_simp
  have typed: "tone earbuds \<in> set Tone_values" "pillar earbuds \<in> set ContentPillar_values"
    by (simp_all add: earbuds_def Tone_values_def ContentPillar_values_def)
  have requested: "pillar earbuds = ContentPillar_PROMOTIONAL"
    by (simp add: earbuds_def)
  from exclusive have "sublist (getPillarInstruction (pillar earbuds)) (prompt earbuds)"
    by (rule conjunct2 [THEN conjunct1])
  then have "sublist (getPillarInstruction ContentPillar_PROMOTIONAL) (prompt earbuds)"
    using requested by simp
  moreover have "\<not> sublist (getPillarInstruction ContentPillar_EDUCATIONAL) (prompt earbuds)"
    by (rule exclusive [THEN conjunct2, THEN conjunct2, rule_format,
          OF supported conjI [OF other conjI [OF typed(1) conjI [OF typed(2) fields]]]])
  ultimately show ?thesis ..
qed

text \<open>
  C3, as the claim states it, fails in the same way: an English request whose topic is
  the text of the Thai instruction gives a prompt that contains two of the three
  language instructions, the English one and the Thai one.
\<close>

theorem language_instruction_counterexample:
  "sublist (getLanguageInstruction Language_TH) (prompt pastedLanguage)
   \<and> sublist (getLanguageInstruction Language_EN) (prompt pastedLanguage)
   \<and> getLanguageInstruction Language_TH \<noteq> getLanguageInstruction Language_EN"
proof -
  have "topic pastedLanguage = getLanguageInstruction Language_TH"
    by (simp add: pastedLanguage_def)
  with topic_in_prompt [of pastedLanguage]
  have "sublist (getLanguageInstruction Language_TH) (prompt pastedLanguage)" by simp
  moreover have "sublist (getLanguageInstruction (language pastedLanguage)) (prompt pastedLanguage)"
    by (rule value_in_prompt) (simp add: segment_values)
  moreover have "language pastedLanguage = Language_EN"
    by (simp add: pastedLanguage_def earbuds_def)
  moreover have "getLanguageInstruction Language_TH \<noteq> getLanguageInstruction Language_EN"
    by (simp add: getLanguageInstruction_def enum_defs)
  ultimately show ?thesis by simp
qed

text \<open>
  C3, amended. For every language value of the request, supported or not, the line of
  the template after "LANGUAGE REQUIREMENT:" is the instruction
  \<open>getLanguageInstruction\<close> returns for it, which is one of the three language
  instructions and is the English one for every value outside the enum; the prompt
  contains it and, tone and pillar being values of their enums, contains neither of the
  other two instructions, unless a free-text field of the request contains that
  instruction itself.
\<close>

theorem language_instruction_exclusive:
  "promptLines r ! 17 = ''  '' @ getLanguageInstruction (language r)
   \<and> sublist (getLanguageInstruction (language r)) (prompt r)
   \<and> getLanguageInstruction (language r) \<in> set (map getLanguageInstruction Language_values)
   \<and> (language r \<notin> set Language_values
        \<longrightarrow> getLanguageInstruction (language r) = ''Write the response in English.'')
   \<and> (\<forall>i \<in> set (map getLanguageInstruction Language_values).
        i \<noteq> getLanguageInstruction (language r) \<and> tone r \<in> set Tone_values
        \<and> pillar r \<in> set ContentPillar_values \<and> (\<forall>t \<in> set (freeText r). \<not> sublist i t)
        \<longrightarrow> \<not> sublist i (prompt r))"
proof (intro conjI ballI impI)
  show "promptLines r ! 17 = ''  '' @ getLanguageInstruction (language r)"
    by (simp add: promptLines_def)
  show "sublist (getLanguageInstruction (language r)) (prompt r)"
    by (rule value_in_prompt) (simp add: segment_values)
  show "getLanguageInstruction (language r) \<in> set (map getLanguageInstruction Language_values)"
    by (rule language_range)
  show "getLanguageInstruction (language r) = ''Write the response in English.''"
    if "language r \<notin> set Language_values"
    using that by (simp add: Language_values_def getLanguageInstruction_def)
next
  fix i
  assume own: "i \<in> set (map getLanguageInstruction Language_values)"
    and hyp: "i \<noteq> getLanguageInstruction (language r) \<and> tone r \<in> set Tone_values
      \<and> pillar r \<in> set ContentPillar_values \<and> (\<forall>t \<in> set (freeText r). \<not> sublist i t)"
  from own fragment_sets(3) have F: "i \<in> set allFragments" by blast
  then have ne: "i \<noteq> ''''" by (rule fragment_nonempty)
  have "i \<noteq> getFrameworkInstruction (framework r)"
  proof
    assume "i = getFrameworkInstruction (framework r)"
    with ne framework_range [of "framework r"]
    have "i \<in> set (map getFrameworkInstruction Framework_values)" by auto
    with own fragments_disjoint(2) show False by blast
  qed
  moreover have "i \<noteq> getPillarInstruction (pillar r)"
  proof
    assume "i = getPillarInstruction (pillar r)"
    with ne pillar_range [of "pillar r"]
    have "i \<in> set (map getPillarInstruction ContentPillar_values)" by auto
    with own fragments_disjoint(3) show False by blast
  qed
  ultimately show "\<not> sublist i (prompt r)"
    using F hyp by (intro fragment_not_in_prompt) auto
qed

theorem language_instruction_exclusive_witness:
  "sublist (getLanguageInstruction Language_EN) (prompt earbuds)
   \<and> \<not> sublist (getLanguageInstruction Language_TH) (prompt earbuds)
   \<and> getLanguageInstruction (language earbudsInFrench) = ''Write the response in English.''"
proof -
  note exclusive = language_instruction_exclusive [of earbuds]
  note fallback = language_instruction_exclusive [of earbudsInFrench]
  have one_of_three:
    "getLanguageInstruction Language_TH \<in> set (map getLanguageInstruction Language_values)"
    by (simp add: Language_values_def)
  have typed: "tone earbuds \<in> set Tone_values" "pillar earbuds \<in> set ContentPillar_values"
    by (simp_all add: earbuds_def Tone_values_def ContentPillar_values_def)
  have requested: "language earbuds = Language_EN"
    by (simp add: earbuds_def)
  have "getLanguageInstruction Language_TH \<noteq> getLanguageInstruction Language_EN"
    by (simp add: getLanguageInstruction_def enum_defs)
  with requested have other:
    "getLanguageInstruction Language_TH \<noteq> getLanguageInstruction (language earbuds)"
    by simp
  have fields:
    "\<forall>t \<in> set (freeText earbuds). \<not> sublist (getLanguageInstruction Language_TH) t"
    by code_simp
  have unsupported: "language earbudsInFrench \<notin> set Language_values"
    by (simp add: earbudsInFrench_def Language_values_def enum_defs)
  from exclusive have "sublist (getLanguageInstruction (language earbuds)) (prompt earbuds)"
    by (rule conjunct2 [THEN conjunct1])
  then have "sublist (getLanguageInstruction Language_EN) (prompt earbuds)"
    using requested by simp
  moreover have "\<not> sublist (getLanguageInstruction Language_TH) (prompt earbuds)"
    by (rule exclusive [THEN conjunct2, THEN conjunct2, THEN conjunct2, THEN conjunct2,
          rule_format, OF one_of_three conjI [OF other conjI [OF typed(1) conjI [OF typed(2) fields]]]])
  moreover have
    "getLanguageInstruction (language earbudsInFrench) = ''Write the response in English.''"
    by (rule fallback [THEN conjunct2, THEN conjunct2, THEN conjunct2, THEN conjunct1,
          rule_format, OF unsupported])
  ultimately show ?thesis by (intro conjI)
qed

section \<open>The Target Audience line (C4)\<close>

text \<open>
  C4. The seventh line of the template is the Target Audience line. When
  \<^verbatim>\<open>targetAudience\<close> is empty (the empty string, or absent) and the request carries a brand
  whose \<^verbatim>\<open>defaultAudience\<close> is not empty, the line shows that default audience; when
  \<^verbatim>\<open>targetAudience\<close> is empty and there is no brand, or the brand's default audience is
  empty as well, it shows "General Audience"; otherwise it shows \<^verbatim>\<open>targetAudience\<close>. The
  last conjunct places the line in the prompt string, between the six lines before it
  and the lines after it.
\<close>

theorem targetAudience_line:
  "((targetAudience r = None \<or> targetAudience r = Some '''') \<and> brand r = Some b
        \<and> defaultAudience b \<noteq> ''''
      \<longrightarrow> promptLines r ! 6 = ''  Target Audience: '' @ defaultAudience b)
   \<and> ((targetAudience r = None \<or> targetAudience r = Some '''')
        \<and> (brand r = None \<or> (\<exists>b'. brand r = Some b' \<and> defaultAudience b' = ''''))
      \<longrightarrow> promptLines r ! 6 = ''  Target Audience: General Audience'')
   \<and> (targetAudience r = Some a \<and> a \<noteq> ''''
      \<longrightarrow> promptLines r ! 6 = ''  Target Audience: '' @ a)
   \<and> prompt r = joinLines (take 6 (promptLines r)) @ ''\<newline>'' @ promptLines r ! 6
        @ ''\<newline>'' @ joinLines (drop 7 (promptLines r))"
  by (auto simp: prompt_def promptLines_def audience_def js_or_def truthy_def interpolate_def)

theorem targetAudience_line_witness:
  "promptLines (formData demoSelected\<lparr>targetAudience := Some ''''\<rparr>) ! 6
     = ''  Target Audience: Tech enthusiasts, Early adopters, Ages 18-35''
   \<and> promptLines (formData mounted) ! 6 = ''  Target Audience: General Audience''
   \<and> promptLines (formData mounted\<lparr>targetAudience := Some ''Runners''\<rparr>) ! 6
     = ''  Target Audience: Runners''"
  using
    targetAudience_line [of "formData demoSelected\<lparr>targetAudience := Some ''''\<rparr>"
      "hd DEFAULT_BRANDS" "''x''"]
    targetAudience_line [of "formData mounted" "hd DEFAULT_BRANDS" "''x''"]
    targetAudience_line [of "formData mounted\<lparr>targetAudience := Some ''Runners''\<rparr>"
      "hd DEFAULT_BRANDS" "''Runners''"]
  by (simp add: example_defs runEffects_def setSelectedBrandId_def brandEffect_def truthy_def)

section \<open>The generation client (C6, C7)\<close>

text \<open>
  C7. When the call of the endpoint resolves, \<open>generateCopy\<close> writes nothing to the console
  and returns: the response text when that text is a string that is not empty, and the
  fixed string "Sorry, I couldn't generate the content at this time." when the text is
  empty or absent. In both cases it returns and does not throw.
\<close>

theorem generateCopy_success:
  assumes "api (parameters request) = Resolved t"
  shows "fst (generateCopy api request) = []
       \<and> (t = Some txt \<and> txt \<noteq> '''' \<longrightarrow> snd (generateCopy api request) = Inr txt)
       \<and> (t = None \<or> t = Some '''' \<longrightarrow>
            snd (generateCopy api request)
              = Inr ''Sorry, I couldn't generate the content at this time.'')"
  using assms by (auto simp: generateCopy_def js_or_def truthy_def interpolate_def)

theorem generateCopy_success_witness:
  "generateCopy (\<lambda>p. Resolved (Some ''Hello'')) (formData mounted) = ([], Inr ''Hello'')
   \<and> generateCopy (\<lambda>p. Resolved None) (formData mounted)
       = ([], Inr ''Sorry, I couldn't generate the content at this time.'')
   \<and> generateCopy (\<lambda>p. Resolved (Some '''')) (formData mounted)
       = ([], Inr ''Sorry, I couldn't generate the content at this time.'')"
  using
    generateCopy_success [of "\<lambda>p. Resolved (Some ''Hello'')" "formData mounted"
      "Some ''Hello''" "''Hello''"]
    generateCopy_success [of "\<lambda>p. Resolved None" "formData mounted" None "''x''"]
    generateCopy_success [of "\<lambda>p. Resolved (Some '''')" "formData mounted" "Some ''''" "''x''"]
  by (simp add: prod_eq_iff)

text \<open>
  C6. When the call of the endpoint throws, whatever the error, \<open>generateCopy\<close> logs it and
  throws the one generic error "Failed to generate content. Please check your connection
  or API key."; \<open>handleGenerate\<close> then shows exactly one more alert, the generic "Something
  went wrong. Please try again.", leaves \<^verbatim>\<open>formData\<close> (and the brand registry and selection)
  as it was, shows no generated content, and ends with the loading flag false.
\<close>

theorem generate_failure:
  assumes "api (parameters (formData s)) = Thrown e"
  shows "generateCopy api (formData s)
           = ([[''Gemini API Error:'', e]],
              Inl (Error ''Failed to generate content. Please check your connection or API key.''))
       \<and> alerts (handleGenerate api s) = alerts s @ [''Something went wrong. Please try again.'']
       \<and> formData (handleGenerate api s) = formData s
       \<and> loading (handleGenerate api s) = False
       \<and> generatedContent (handleGenerate api s) = None
       \<and> brands (handleGenerate api s) = brands s
       \<and> selectedBrandId (handleGenerate api s) = selectedBrandId s"
  using assms by (simp add: generateCopy_def handleGenerate_def Let_def)

theorem generate_failure_witness:
  "alerts (handleGenerate (\<lambda>p. Thrown ''offline'') demoSelected)
     = [''Something went wrong. Please try again.'']
   \<and> formData (handleGenerate (\<lambda>p. Thrown ''offline'') demoSelected) = formData demoSelected
   \<and> loading (handleGenerate (\<lambda>p. Thrown ''offline'') demoSelected) = False"
  using generate_failure [of "\<lambda>p. Thrown ''offline''" demoSelected "''offline''"]
  by (simp add: example_defs runEffects_def setSelectedBrandId_def brandEffect_def truthy_def)

section \<open>Clearing the form (C9, C10)\<close>

text \<open>
  C9. \<open>handleClear\<close> sets topic and description to the empty string, sets
  \<^verbatim>\<open>targetAudience\<close> to the empty string when no brand is selected (\<^verbatim>\<open>selectedBrandId\<close> is
  \<^verbatim>\<open>null\<close> or empty, the test the handler makes) and keeps it when one is, clears the
  generated content, and leaves the brand list and the selection as they were; the brand
  effect does not run after it.
\<close>

theorem handleClear_effect:
  "topic (formData (handleClear s)) = ''''
   \<and> ContentRequest.description (formData (handleClear s)) = ''''
   \<and> (\<not> truthy (selectedBrandId s) \<longrightarrow> targetAudience (formData (handleClear s)) = Some '''')
   \<and> (truthy (selectedBrandId s) \<longrightarrow>
        targetAudience (formData (handleClear s)) = targetAudience (formData s))
   \<and> generatedContent (handleClear s) = None
   \<and> brands (handleClear s) = brands s
   \<and> selectedBrandId (handleClear s) = selectedBrandId s
   \<and> runEffects s (handleClear s) = handleClear s"
  by (simp add: handleClear_def runEffects_def)

theorem handleClear_effect_witness:
  "targetAudience (formData (handleClear demoSelected))
     = Some ''Tech enthusiasts, Early adopters, Ages 18-35''
   \<and> targetAudience
       (formData (handleClear (mounted\<lparr>formData := formData mounted
          \<lparr>topic := ''Wireless Earbuds'', targetAudience := Some ''Runners''\<rparr>\<rparr>)))
     = Some ''''
   \<and> topic
       (formData (handleClear (mounted\<lparr>formData := formData mounted
          \<lparr>topic := ''Wireless Earbuds'', targetAudience := Some ''Runners''\<rparr>\<rparr>)))
     = ''''"
  using
    handleClear_effect [of demoSelected]
    handleClear_effect [of "mounted\<lparr>formData := formData mounted
      \<lparr>topic := ''Wireless Earbuds'', targetAudience := Some ''Runners''\<rparr>\<rparr>"]
  by (simp add: example_defs runEffects_def setSelectedBrandId_def brandEffect_def truthy_def)

text \<open>
  C10. \<open>handleClear\<close> leaves the framework, pillar, language and tone of the request as
  they were, and the attached brand, the loading flag, the alerts and the console too.
\<close>

theorem handleClear_frame:
  "framework (formData (handleClear s)) = framework (formData s)
   \<and> pillar (formData (handleClear s)) = pillar (formData s)
   \<and> language (formData (handleClear s)) = language (formData s)
   \<and> tone (formData (handleClear s)) = tone (formData s)
   \<and> brand (formData (handleClear s)) = brand (formData s)
   \<and> loading (handleClear s) = loading s
   \<and> alerts (handleClear s) = alerts s
   \<and> console (handleClear s) = console s"
  by (simp add: handleClear_def)

section \<open>The brand registry and the brand effect (C5, C8)\<close>

text \<open>
  C5, as the claim states it, fails: after \<^verbatim>\<open>demo-1\<close> has been selected and then deleted,
  the tone and the target audience of the request are still the defaults of the deleted
  brand, not the values the form had before the brand was selected.
\<close>

theorem delete_keeps_overrides_counterexample:
  "tone (formData (runEffects demoSelected (handleDeleteBrand ''demo-1'' demoSelected)))
     = Tone_WITTY
   \<and> targetAudience
       (formData (runEffects demoSelected (handleDeleteBrand ''demo-1'' demoSelected)))
     = Some ''Tech enthusiasts, Early adopters, Ages 18-35''
   \<and> tone (formData mounted) = Tone_PROFESSIONAL
   \<and> targetAudience (formData mounted) = Some ''''
   \<and> Tone_WITTY \<noteq> Tone_PROFESSIONAL"
  by (simp add: example_defs runEffects_def setSelectedBrandId_def brandEffect_def truthy_def
      handleDeleteBrand_def enum_defs)

text \<open>
  C5, amended. Deleting the selected brand removes every brand with that id from the
  list and clears the selection; the effect that runs next detaches the brand object
  from the request and leaves the tone and the target audience of the request as they
  were.
\<close>

theorem delete_selected_brand:
  assumes "selectedBrandId s = Some i"
  shows "brands (runEffects s (handleDeleteBrand i s)) = filter (\<lambda>b. id' b \<noteq> i) (brands s)
       \<and> i \<notin> set (map id' (brands (runEffects s (handleDeleteBrand i s))))
       \<and> selectedBrandId (runEffects s (handleDeleteBrand i s)) = None
       \<and> brand (formData (runEffects s (handleDeleteBrand i s))) = None
       \<and> tone (formData (runEffects s (handleDeleteBrand i s))) = tone (formData s)
       \<and> targetAudience (formData (runEffects s (handleDeleteBrand i s)))
           = targetAudience (formData s)"
  using assms
  by (auto simp: runEffects_def handleDeleteBrand_def brandEffect_def truthy_def Let_def)

theorem delete_selected_brand_witness:
  "map id' (brands (runEffects demoSelected (handleDeleteBrand ''demo-1'' demoSelected)))
     = [''demo-2'']
   \<and> selectedBrandId (runEffects demoSelected (handleDeleteBrand ''demo-1'' demoSelected))
     = None
   \<and> brand (formData (runEffects demoSelected (handleDeleteBrand ''demo-1'' demoSelected)))
     = None"
  using delete_selected_brand [of demoSelected "''demo-1''"]
  by (simp add: example_defs runEffects_def setSelectedBrandId_def brandEffect_def truthy_def)





end
